theory Spec2Isabelle
  imports Complex_Main "HOL-Library.Word"
begin

section \<open>Data model\<close>

text \<open>
  The notebook loads one two-dimensional integer matrix and casts it with
  \<^verbatim>\<open>astype(np.int32)\<close>: every cell is a 32-bit two's complement integer, and array
  arithmetic with a Python scalar stays in that type and wraps around.  A matrix is its
  column count together with its rows.
\<close>

type_synonym int32 = "32 word"
type_synonym int64 = "64 word"

datatype error =
    NameError string
  | IndexError
  | ValueError
  | FileNotFoundError string
  | InvalidArgumentError

record ndarray2 =
  ncols :: nat
  rows :: "int32 list list"

text \<open>Column labels, as the notebook declares them.\<close>

definition STATION_ID_COL :: nat where "STATION_ID_COL = 0"
definition MONTH_COL :: nat where "MONTH_COL = 1"
definition DAY_COL :: nat where "DAY_COL = 2"
definition VAL_COLS_START :: nat where "VAL_COLS_START = 3"
definition TMAX_COL :: nat where "TMAX_COL = 3"
definition TMIN_COL :: nat where "TMIN_COL = 4"
definition PRCP_COL :: nat where "PRCP_COL = 5"

text \<open>\<^verbatim>\<open>a[:, c]\<close>: the column \<open>c\<close> of a matrix; an index past the last column raises.\<close>

definition column :: "ndarray2 \<Rightarrow> nat \<Rightarrow> error + int32 list" where
  "column a c = (if c < ncols a then Inr (map (\<lambda>r. r ! c) (rows a)) else Inl IndexError)"

text \<open>\<^verbatim>\<open>a[:, c:]\<close>: a slice never raises; past the last column it is empty.\<close>

definition columns_from :: "ndarray2 \<Rightarrow> nat \<Rightarrow> int32 list list" where
  "columns_from a c = map (drop c) (rows a)"

section \<open>Loading the data\<close>

text \<open>
  \<^verbatim>\<open>31 * (weather_data[:, MONTH_COL] - 1) + (weather_data[:, DAY_COL] - 1)\<close>,
  element by element, in int32.
\<close>

definition day_of_year_index :: "int32 \<Rightarrow> int32 \<Rightarrow> int32" where
  "day_of_year_index month day = 31 * (month - 1) + (day - 1)"

definition weather_data_day_of_year_data :: "ndarray2 \<Rightarrow> error + int32 list" where
  "weather_data_day_of_year_data weather_data =
     (case column weather_data MONTH_COL of
        Inl e \<Rightarrow> Inl e
      | Inr months \<Rightarrow>
         (case column weather_data DAY_COL of
            Inl e \<Rightarrow> Inl e
          | Inr days \<Rightarrow> Inr (map2 day_of_year_index months days)))"

definition station_id_data :: "ndarray2 \<Rightarrow> error + int32 list" where
  "station_id_data weather_data = column weather_data STATION_ID_COL"

definition weather_prediction :: "ndarray2 \<Rightarrow> int32 list list" where
  "weather_prediction weather_data = columns_from weather_data VAL_COLS_START"

text \<open>
  An observation record of the data model: six columns, the month in 1..12 and the day
  in 1..31.
\<close>

definition valid_record :: "int32 list \<Rightarrow> bool" where
  "valid_record r \<longleftrightarrow>
     length r = 6 \<and> 1 \<le> sint (r ! MONTH_COL) \<and> sint (r ! MONTH_COL) \<le> 12
       \<and> 1 \<le> sint (r ! DAY_COL) \<and> sint (r ! DAY_COL) \<le> 31"

definition valid_table :: "ndarray2 \<Rightarrow> bool" where
  "valid_table a \<longleftrightarrow> ncols a = 6 \<and> list_all valid_record (rows a)"

section \<open>Network parameters\<close>

definition BATCH_SIZE :: nat where "BATCH_SIZE = 50"
definition EMBEDDING_SIZE :: int where "EMBEDDING_SIZE = 20"
definition HIDDEN_UNITS :: int where "HIDDEN_UNITS = 40"
definition CLUSTER_NUMBER :: nat where "CLUSTER_NUMBER = 6"

text \<open>\<^verbatim>\<open>np.max\<close> of a one-dimensional int32 array: the signed maximum; empty input raises.\<close>

definition np_max :: "int32 list \<Rightarrow> error + int32" where
  "np_max xs =
     (case xs of
        [] \<Rightarrow> Inl ValueError
      | x # rest \<Rightarrow> Inr (fold (\<lambda>y acc. if sint acc < sint y then y else acc) rest x))"

text \<open>
  \<^verbatim>\<open>NUM_STATIONS = np.max(weather_data[:, STATION_ID_COL]) + 1\<close>.  The maximum is an
  int32 scalar.  Under the scalar promotion of the NumPy releases for the notebook's
  Python 3.7 kernel, an int32 scalar plus a Python integer is an int64 scalar, so the
  sum is taken in 64 bits.
\<close>

definition NUM_STATIONS :: "ndarray2 \<Rightarrow> error + int64" where
  "NUM_STATIONS weather_data =
     (case column weather_data STATION_ID_COL of
        Inl e \<Rightarrow> Inl e
      | Inr ids \<Rightarrow>
         (case np_max ids of
            Inl e \<Rightarrow> Inl e
          | Inr m \<Rightarrow> Inr (scast m + 1)))"

section \<open>The network\<close>

text \<open>
  The notebook builds the network from layers of the modelling library.  A symbolic
  tensor carries the name of the layer that produced it, the names of the layers it is
  connected to, its shape without the batch dimension, the shapes of the layer's weight
  arrays and the layer's activation.  The shape rules are the library's: they give
  back the table printed by \<^verbatim>\<open>model.summary()\<close> in the notebook.
\<close>

type_synonym shape = "int list"

datatype activation = relu

record tensor =
  lname :: string
  inbound :: "string list"
  output_shape :: shape
  weight_shapes :: "shape list"
  act :: "activation option"

definition then_do :: "error + 'a \<Rightarrow> ('a \<Rightarrow> error + 'b) \<Rightarrow> error + 'b" where
  "then_do r f = (case r of Inl e \<Rightarrow> Inl e | Inr x \<Rightarrow> f x)"

definition Input :: "shape \<Rightarrow> string \<Rightarrow> tensor" where
  "Input shp name =
     \<lparr>lname = name, inbound = [], output_shape = shp, weight_shapes = [], act = None\<rparr>"

text \<open>
  An embedding maps every index of its input to a row of length \<open>output_dim\<close> of a
  table of \<open>input_dim\<close> rows.  A table needs a positive number of rows and of columns:
  with any other dimensions the layer raises and no table exists.
\<close>

definition Embedding :: "int \<Rightarrow> int \<Rightarrow> string \<Rightarrow> tensor \<Rightarrow> error + tensor" where
  "Embedding output_dim input_dim name x =
     (if input_dim \<le> 0 \<or> output_dim \<le> 0 then Inl ValueError
      else Inr \<lparr>lname = name, inbound = [lname x],
                output_shape = output_shape x @ [output_dim],
                weight_shapes = [[input_dim, output_dim]], act = None\<rparr>)"

text \<open>A reshape keeps the number of elements.\<close>

definition Reshape :: "shape \<Rightarrow> string \<Rightarrow> tensor \<Rightarrow> error + tensor" where
  "Reshape target_shape name x =
     (if prod_list (output_shape x) = prod_list target_shape
      then Inr \<lparr>lname = name, inbound = [lname x], output_shape = target_shape,
                weight_shapes = [], act = None\<rparr>
      else Inl ValueError)"

text \<open>Concatenation along the last axis: the other axes must agree.\<close>

definition Concatenate :: "string \<Rightarrow> tensor list \<Rightarrow> error + tensor" where
  "Concatenate name xs =
     (if xs = [] \<or> list_ex (\<lambda>x. output_shape x = []) xs
         \<or> list_ex (\<lambda>x. butlast (output_shape x) \<noteq> butlast (output_shape (hd xs))) xs
      then Inl ValueError
      else Inr \<lparr>lname = name, inbound = map lname xs,
                output_shape = butlast (output_shape (hd xs))
                                 @ [sum_list (map (\<lambda>x. last (output_shape x)) xs)],
                weight_shapes = [], act = None\<rparr>)"

text \<open>A fully-connected layer: a kernel of shape (inputs, units) and a bias per unit.\<close>

definition Dense :: "int \<Rightarrow> activation option \<Rightarrow> string \<Rightarrow> tensor \<Rightarrow> error + tensor" where
  "Dense units activation name x =
     (if output_shape x = [] then Inl ValueError
      else Inr \<lparr>lname = name, inbound = [lname x],
                output_shape = butlast (output_shape x) @ [units],
                weight_shapes = [[last (output_shape x), units], [units]],
                act = activation\<rparr>)"

record compile_args =
  optimizer :: string
  loss :: string

record model =
  layers :: "tensor list"
  inputs :: "string list"
  outputs :: "string list"
  compiled :: "compile_args option"

text \<open>
  The cell that defines the network, statement by statement; \<open>num_stations\<close> is the
  value of \<^verbatim>\<open>NUM_STATIONS\<close>.  The layers are listed in the order of the summary.
\<close>

definition build_model :: "int \<Rightarrow> error + model" where
  "build_model num_stations =
     (let station_id_input = Input [1] ''station_id_input'';
          month_day_input = Input [1] ''month_day_input''
      in then_do (Embedding EMBEDDING_SIZE num_stations ''embedded_stations'' station_id_input)
           (\<lambda>embedded_stations.
         then_do (Reshape [EMBEDDING_SIZE] ''embedded_station_reshape'' embedded_stations)
           (\<lambda>embedded_station_reshape.
         then_do (Concatenate ''station_and_day'' [embedded_station_reshape, month_day_input])
           (\<lambda>station_and_day.
         then_do (Dense HIDDEN_UNITS (Some relu) ''hidden'' station_and_day)
           (\<lambda>hidden.
         then_do (Dense 3 None ''prediction'' hidden)
           (\<lambda>prediction.
         Inr \<lparr>layers = [station_id_input, embedded_stations, embedded_station_reshape,
                        month_day_input, station_and_day, hidden, prediction],
              inputs = [lname station_id_input, lname month_day_input],
              outputs = [lname prediction],
              compiled = Some \<lparr>optimizer = ''adam'', loss = ''mean_squared_error''\<rparr>\<rparr>))))))"

definition count_params :: "tensor \<Rightarrow> int" where
  "count_params l = sum_list (map prod_list (weight_shapes l))"

definition summary :: "model \<Rightarrow> (string \<times> shape \<times> int \<times> string list) list" where
  "summary m = map (\<lambda>l. (lname l, output_shape l, count_params l, inbound l)) (layers m)"

text \<open>\<^verbatim>\<open>model.get_layer(name)\<close>: the first layer of that name, or an error.\<close>

definition get_layer :: "model \<Rightarrow> string \<Rightarrow> error + tensor" where
  "get_layer m name =
     (case filter (\<lambda>l. lname l = name) (layers m) of
        [] \<Rightarrow> Inl ValueError
      | l # _ \<Rightarrow> Inr l)"

text \<open>
  \<^verbatim>\<open>model.get_layer('embedded_stations').get_weights()[0]\<close>: the shape of the
  snapshot of the embedding table.
\<close>

definition trained_embeddings_shape :: "model \<Rightarrow> error + shape" where
  "trained_embeddings_shape m =
     then_do (get_layer m ''embedded_stations'')
       (\<lambda>l. case weight_shapes l of [] \<Rightarrow> Inl IndexError | w # _ \<Rightarrow> Inr w)"

text \<open>
  Looking a station up in an embedding table: the index must be a row of the table.
\<close>

definition embedding_lookup :: "'a list \<Rightarrow> int \<Rightarrow> error + 'a" where
  "embedding_lookup table i =
     (if 0 \<le> i \<and> i < int (length table) then Inr (table ! nat i) else Inl InvalidArgumentError)"

section \<open>Training\<close>

text \<open>
  The call \<^verbatim>\<open>model.fit([station_id_data, weather_data_day_of_year_data],
  weather_prediction.reshape(-1, 3), epochs=1)\<close> passes the two inputs, the targets and
  \<open>epochs\<close>; it passes no \<open>batch_size\<close>.
\<close>

record fit_args =
  samples :: nat
  batch_size :: "nat option"
  epochs :: nat

definition model_fit_call :: "nat \<Rightarrow> fit_args" where
  "model_fit_call n = \<lparr>samples = n, batch_size = None, epochs = 1\<rparr>"

text \<open>
  The library's \<open>fit\<close>: a batch size that is not given is the library's default, which
  its documentation gives as 32; each epoch walks the samples in slices of the batch
  size, the last one shorter.  The default is a parameter of the model of \<open>fit\<close>.
\<close>

definition keras_default_batch_size :: nat where
  "keras_default_batch_size = 32"

definition effective_batch_size :: "nat \<Rightarrow> fit_args \<Rightarrow> nat" where
  "effective_batch_size default_batch_size a =
     (case batch_size a of None \<Rightarrow> default_batch_size | Some b \<Rightarrow> b)"

definition make_batches :: "nat \<Rightarrow> nat \<Rightarrow> (nat \<times> nat) list" where
  "make_batches n bs =
     map (\<lambda>i. (i * bs, min n ((i + 1) * bs))) [0..<(n + bs - 1) div bs]"

definition fit_plan :: "nat \<Rightarrow> fit_args \<Rightarrow> (nat \<times> nat) list list" where
  "fit_plan default_batch_size a =
     replicate (epochs a) (make_batches (samples a) (effective_batch_size default_batch_size a))"

section \<open>Clustering the embeddings\<close>

text \<open>
  Modelled from the spec: the clustering routine \<^verbatim>\<open>KMeans(n_clusters, random_state).fit\<close>
  is the machine-learning toolkit's, and its code is not part of the repository.  The
  spec describes it as the standard iterative centroid-based algorithm: a seeded choice
  of initial centroids among the rows, then alternating assignment and centroid-update
  steps until convergence or an iteration cap.  Rows are vectors of reals; \<open>rng\<close> is the
  stream of numbers drawn from the seeded generator.
\<close>

type_synonym point = "real list"

definition sq_dist :: "point \<Rightarrow> point \<Rightarrow> real" where
  "sq_dist p q = sum_list (map2 (\<lambda>a b. (a - b)\<^sup>2) p q)"

text \<open>The index of the nearest centroid; the first one wins a tie.\<close>

fun nearest_scan :: "point list \<Rightarrow> point \<Rightarrow> nat \<Rightarrow> nat \<Rightarrow> real \<Rightarrow> nat" where
  "nearest_scan [] p i best d = best"
| "nearest_scan (c # cs) p i best d =
     (if sq_dist p c < d then nearest_scan cs p (Suc i) i (sq_dist p c)
      else nearest_scan cs p (Suc i) best d)"

definition nearest :: "point list \<Rightarrow> point \<Rightarrow> nat" where
  "nearest centroids p =
     (case centroids of [] \<Rightarrow> 0 | c # cs \<Rightarrow> nearest_scan cs p 1 0 (sq_dist p c))"

definition assign :: "point list \<Rightarrow> point list \<Rightarrow> nat list" where
  "assign centroids X = map (nearest centroids) X"

definition members :: "nat \<Rightarrow> nat list \<Rightarrow> point list \<Rightarrow> point list" where
  "members j labels X = map snd (filter (\<lambda>(l, p). l = j) (zip labels X))"

definition mean_point :: "point list \<Rightarrow> point" where
  "mean_point ps =
     (case ps of
        [] \<Rightarrow> []
      | p # _ \<Rightarrow> map (\<lambda>i. sum_list (map (\<lambda>q. q ! i) ps) / real (length ps)) [0..<length p])"

text \<open>The update step: the mean of a cluster's rows; an empty cluster keeps its centroid.\<close>

definition update_centroids :: "point list \<Rightarrow> nat list \<Rightarrow> point list \<Rightarrow> point list" where
  "update_centroids centroids labels X =
     map (\<lambda>(j, c). if members j labels X = [] then c else mean_point (members j labels X))
       (zip [0..<length centroids] centroids)"

fun lloyd :: "nat \<Rightarrow> point list \<Rightarrow> point list \<Rightarrow> nat list" where
  "lloyd 0 centroids X = assign centroids X"
| "lloyd (Suc n) centroids X =
     (let labels = assign centroids X;
          centroids' = update_centroids centroids labels X
      in if centroids' = centroids then labels else lloyd n centroids' X)"

definition init_centroids :: "(nat \<Rightarrow> nat) \<Rightarrow> nat \<Rightarrow> point list \<Rightarrow> point list" where
  "init_centroids rng k X = map (\<lambda>i. X ! (rng i mod length X)) [0..<k]"

text \<open>
  Modelled from the spec: the labels that \<^verbatim>\<open>KMeans(n_clusters, random_state).fit(X)\<close>
  leaves in \<open>labels_\<close>, one per row of \<open>X\<close>; the toolkit's routine is missing from the
  sources.  A table without rows has no labels.
\<close>

definition KMeans_fit_labels :: "(nat \<Rightarrow> nat) \<Rightarrow> nat \<Rightarrow> nat \<Rightarrow> point list \<Rightarrow> nat list" where
  "KMeans_fit_labels rng n_clusters max_iter X =
     (if X = [] then [] else lloyd max_iter (init_centroids rng n_clusters X) X)"

section \<open>Reporting\<close>

text \<open>
  \<^verbatim>\<open>line.strip()\<close> removes the white space at both ends of a line.  Strings are
  byte strings here, and the white space is the ASCII white space of Python's \<open>str\<close>;
  the white space beyond ASCII, which \<open>strip\<close> removes as well, is not represented.
\<close>

definition is_space :: "char \<Rightarrow> bool" where
  "is_space c \<longleftrightarrow>
     c \<in> set [CHR '' '', CHR 0x09, CHR 0x0A, CHR 0x0B, CHR 0x0C, CHR 0x0D,
              CHR 0x1C, CHR 0x1D, CHR 0x1E, CHR 0x1F]"

definition strip :: "string \<Rightarrow> string" where
  "strip s = rev (dropWhile is_space (rev (dropWhile is_space s)))"

text \<open>\<^verbatim>\<open>[line.strip() for line in f.readlines()]\<close>, from the lines of the file.\<close>

definition list_of_stations :: "string list \<Rightarrow> string list" where
  "list_of_stations file_lines = map strip file_lines"

text \<open>
  The loop \<^verbatim>\<open>for station, label in zip(list_of_stations, kmeans.labels_): pass\<close>.
  Its state is what the program has printed and the two loop variables; the body is
  \<^verbatim>\<open>pass\<close> (the \<open>print\<close> is commented out), and \<open>iterations\<close> counts the passes.
\<close>

record reporter =
  stdout :: "string list"
  station :: "string option"
  label :: "nat option"
  iterations :: nat

fun report_loop :: "(string \<times> nat) list \<Rightarrow> reporter \<Rightarrow> reporter" where
  "report_loop [] s = s"
| "report_loop ((st, l) # ps) s =
     report_loop ps (s\<lparr>station := Some st, label := Some l, iterations := Suc (iterations s)\<rparr>)"

definition report :: "string list \<Rightarrow> nat list \<Rightarrow> reporter \<Rightarrow> reporter" where
  "report stations labels s = report_loop (zip stations labels) s"

section \<open>The notebook as written: names and effects\<close>

text \<open>
  Which statement runs at all depends on the names that are bound when it is reached.
  A cell is the sequence of what its statements do, in Python's order of evaluation:
  load a global name, bind a global name, or perform an effect.  Loading a name that
  is not bound raises \<open>NameError\<close>; the rest of the cell is skipped, and what the cell
  had bound before stays bound.
\<close>

datatype event =
    Import string
  | ReadFile string
  | Compile
  | Summary
  | Train
  | Cluster
  | Enumerate

datatype action = Load string | Bind string | Do event

record kernel =
  bound :: "string list"
  trace :: "event list"

text \<open>\<^verbatim>\<open>os.path.join\<close> of two components.\<close>

definition path_join :: "string \<Rightarrow> string \<Rightarrow> string" where
  "path_join a b =
     (if b \<noteq> [] \<and> hd b = CHR ''/'' then b
      else if a = [] \<or> last a = CHR ''/'' then a @ b
      else a @ ''/'' @ b)"

definition DATA_PATH :: string where
  "DATA_PATH = ''data/weather''"

definition matrix_file :: string where
  "matrix_file = path_join DATA_PATH ''data/gsn-2000-TMAX-TMIN-PRCP.npz''"

definition stations_file :: string where
  "stations_file = path_join DATA_PATH ''data/stations''"

definition cell_imports :: "action list" where
  "cell_imports =
     [Do (Import ''numpy''), Bind ''np'',
      Do (Import ''matplotlib.pyplot''), Bind ''plt'',
      Do (Import ''keras.models''), Bind ''Model'',
      Do (Import ''keras.layers''), Bind ''Dense'', Bind ''Flatten'', Bind ''Embedding'',
        Bind ''Input'', Bind ''Reshape'', Bind ''Concatenate'',
      Do (Import ''sklearn.cluster''), Bind ''KMeans'']"

definition cell_load :: "action list" where
  "cell_load =
     [Bind ''DATA_PATH'',
      Load ''os'', Load ''DATA_PATH'', Bind ''matrix_file'',
      Bind ''STATION_ID_COL'', Bind ''MONTH_COL'', Bind ''DAY_COL'', Bind ''VAL_COLS_START'',
      Bind ''TMAX_COL'', Bind ''TMIN_COL'', Bind ''PRCP_COL'',
      Load ''np'', Load ''matrix_file'', Do (ReadFile matrix_file), Bind ''npz_data'',
      Load ''npz_data'', Load ''np'', Bind ''weather_data'',
      Load ''weather_data'', Load ''MONTH_COL'', Load ''weather_data'', Load ''DAY_COL'',
      Bind ''weather_data_day_of_year_data'']"

definition cell_reshape :: "action list" where
  "cell_reshape =
     [Load ''weather_data'', Load ''STATION_ID_COL'', Bind ''station_id_data'',
      Load ''weather_data_day_of_year_data'', Bind ''weather_data_day_of_year_data'',
      Load ''weather_data'', Load ''VAL_COLS_START'', Bind ''weather_prediction'']"

definition cell_parameters :: "action list" where
  "cell_parameters =
     [Bind ''BATCH_SIZE'', Bind ''EMBEDDING_SIZE'', Bind ''HIDDEN_UNITS'',
      Bind ''CLUSTER_NUMBER'',
      Load ''np'', Load ''weather_data'', Load ''STATION_ID_COL'', Bind ''NUM_STATIONS'']"

definition cell_network :: "action list" where
  "cell_network =
     [Load ''Input'', Bind ''station_id_input'',
      Load ''Input'', Bind ''month_day_input'',
      Load ''Embedding'', Load ''EMBEDDING_SIZE'', Load ''NUM_STATIONS'',
        Load ''station_id_input'', Bind ''embedded_stations'',
      Load ''Reshape'', Load ''EMBEDDING_SIZE'', Load ''embedded_stations'',
        Bind ''embedded_station_reshape'',
      Load ''Concatenate'', Load ''embedded_station_reshape'', Load ''month_day_input'',
        Bind ''station_and_day'',
      Load ''Dense'', Load ''HIDDEN_UNITS'', Load ''station_and_day'', Bind ''hidden'',
      Load ''Dense'', Load ''hidden'', Bind ''prediction'',
      Load ''Model'', Load ''station_id_input'', Load ''month_day_input'',
        Load ''prediction'', Bind ''model'',
      Load ''model'', Do Compile,
      Load ''model'', Do Summary]"

definition cell_fit :: "action list" where
  "cell_fit =
     [Load ''model'', Load ''station_id_data'', Load ''weather_data_day_of_year_data'',
      Load ''weather_prediction'', Do Train]"

definition cell_embeddings :: "action list" where
  "cell_embeddings = [Load ''model'', Bind ''trained_embeddings'']"

text \<open>
  The last cell.  The loop binds \<open>station\<close> and \<open>label\<close> only when there is a pair to
  enumerate; no later statement loads them, and they are left out.
\<close>

definition cell_classify :: "action list" where
  "cell_classify =
     [Load ''open'', Load ''os'', Load ''DATA_PATH'', Do (ReadFile stations_file), Bind ''f'',
      Load ''f'', Bind ''list_of_stations'',
      Load ''KMeans'', Load ''CLUSTER_NUMBER'', Load ''trained_embeddings'', Do Cluster,
        Bind ''kmeans'',
      Load ''zip'', Load ''list_of_stations'', Load ''kmeans'', Do Enumerate]"

definition notebook :: "action list list" where
  "notebook =
     [cell_imports, cell_load, cell_reshape, cell_parameters, cell_network, cell_fit,
      cell_embeddings, cell_classify]"

text \<open>
  One action.  \<open>files\<close> tells which paths exist: reading a missing file raises.
\<close>

fun exec_action :: "(string \<Rightarrow> bool) \<Rightarrow> action \<Rightarrow> kernel \<Rightarrow> error + kernel" where
  "exec_action files (Load x) k = (if x \<in> set (bound k) then Inr k else Inl (NameError x))"
| "exec_action files (Bind x) k = Inr (k\<lparr>bound := x # bound k\<rparr>)"
| "exec_action files (Do (ReadFile p)) k =
     (if files p then Inr (k\<lparr>trace := trace k @ [ReadFile p]\<rparr>) else Inl (FileNotFoundError p))"
| "exec_action files (Do ev) k = Inr (k\<lparr>trace := trace k @ [ev]\<rparr>)"

text \<open>A cell stops at its first error and keeps the state reached before it.\<close>

fun exec_cell :: "(string \<Rightarrow> bool) \<Rightarrow> action list \<Rightarrow> kernel \<Rightarrow> kernel \<times> error option" where
  "exec_cell files [] k = (k, None)"
| "exec_cell files (a # as) k =
     (case exec_action files a k of
        Inl e \<Rightarrow> (k, Some e)
      | Inr k' \<Rightarrow> exec_cell files as k')"

text \<open>Running the cells in order; the run stops at the first cell that raises.\<close>

fun run_all :: "(string \<Rightarrow> bool) \<Rightarrow> action list list \<Rightarrow> kernel \<Rightarrow> kernel \<times> error option" where
  "run_all files [] k = (k, None)"
| "run_all files (c # cs) k =
     (case exec_cell files c k of
        (k', Some e) \<Rightarrow> (k', Some e)
      | (k', None) \<Rightarrow> run_all files cs k')"

text \<open>
  Running every cell in order even after a cell has raised, as a reader who steps
  through the notebook by hand does; the errors are collected, one entry per cell.
\<close>

fun run_each :: "(string \<Rightarrow> bool) \<Rightarrow> action list list \<Rightarrow> kernel \<Rightarrow> kernel \<times> error option list" where
  "run_each files [] k = (k, [])"
| "run_each files (c # cs) k =
     (case exec_cell files c k of
        (k', r) \<Rightarrow> (case run_each files cs k' of (k'', rs) \<Rightarrow> (k'', r # rs)))"

text \<open>
  A fresh kernel: nothing has run, and the only names bound are the builtins; of
  these the notebook refers to \<open>open\<close> and \<open>zip\<close>.
\<close>

definition fresh_kernel :: kernel where
  "fresh_kernel = \<lparr>bound = [''open'', ''zip''], trace = []\<rparr>"

section \<open>Sample inputs\<close>

definition sample_table :: ndarray2 where
  "sample_table =
     \<lparr>ncols = 6,
      rows = [[0, 1, 1, 30, 10, 0], [3, 12, 21, 5, - 4, 12], [3, 12, 31, 2, - 7, 0]]\<rparr>"

definition sample_embeddings :: "point list" where
  "sample_embeddings =
     [[0, 0], [1, 0], [10, 10], [11, 10], [0, 20], [1, 21], [30, 0], [31, 1], [30, 30]]"

section \<open>The day-of-year index\<close>

lemma sint_of_int32:
  assumes "- 2147483648 \<le> k" "k < 2147483648"
  shows "sint (word_of_int k :: int32) = k"
  using assms by (simp add: sint_sbintrunc' signed_take_bit_int_eq_self)

lemma sint_day_of_year_index:
  fixes m d :: int32
  assumes "1 \<le> sint m" "sint m \<le> 12" "1 \<le> sint d" "sint d \<le> 31"
  shows "sint (day_of_year_index m d) = 31 * (sint m - 1) + (sint d - 1)"
proof -
  define k where "k = 31 * (sint m - 1) + (sint d - 1)"
  have eq: "day_of_year_index m d = word_of_int k"
    by (simp add: day_of_year_index_def k_def)
  have "- 2147483648 \<le> k" "k < 2147483648"
    using assms by (simp_all add: k_def)
  then have "sint (word_of_int k :: int32) = k"
    by (rule sint_of_int32)
  then show ?thesis
    unfolding eq k_def .
qed

lemma map2_map_same: "map2 f (map g xs) (map h xs) = map (\<lambda>x. f (g x) (h x)) xs"
  by (induction xs) simp_all

lemma day_of_year_data_rows:
  assumes "2 < ncols wd"
  shows "weather_data_day_of_year_data wd =
           Inr (map (\<lambda>r. day_of_year_index (r ! MONTH_COL) (r ! DAY_COL)) (rows wd))"
  using assms
  by (simp add: weather_data_day_of_year_data_def column_def MONTH_COL_def DAY_COL_def
        map2_map_same)

lemma valid_table_row:
  assumes "valid_table wd" "i < length (rows wd)"
  shows "valid_record (rows wd ! i)"
  using assms by (simp add: valid_table_def list_all_length)

text \<open>
  Claim C1, as amended.  For every valid observation table (six columns, month in 1..12,
  day in 1..31) the loader yields one index per record, every index lies between 0 and
  371 = 31 * 11 + 30, and for two records of the same month the index does not decrease
  as the day increases.  (The bound 360 of the claim as written fails: see below.)
\<close>

theorem day_of_year_index_range:
  assumes "valid_table wd"
  shows "\<exists>idx. weather_data_day_of_year_data wd = Inr idx
           \<and> length idx = length (rows wd)
           \<and> (\<forall>i < length idx. 0 \<le> sint (idx ! i) \<and> sint (idx ! i) \<le> 371)
           \<and> (\<forall>i < length idx. \<forall>j < length idx.
                 rows wd ! i ! MONTH_COL = rows wd ! j ! MONTH_COL
                 \<and> sint (rows wd ! i ! DAY_COL) \<le> sint (rows wd ! j ! DAY_COL)
                 \<longrightarrow> sint (idx ! i) \<le> sint (idx ! j))"
proof -
  let ?idx = "map (\<lambda>r. day_of_year_index (r ! MONTH_COL) (r ! DAY_COL)) (rows wd)"
  have cols: "2 < ncols wd"
    using assms by (simp add: valid_table_def)
  have val: "sint (?idx ! i)
               = 31 * (sint (rows wd ! i ! MONTH_COL) - 1) + (sint (rows wd ! i ! DAY_COL) - 1)"
    and rng: "1 \<le> sint (rows wd ! i ! MONTH_COL)" "sint (rows wd ! i ! MONTH_COL) \<le> 12"
      "1 \<le> sint (rows wd ! i ! DAY_COL)" "sint (rows wd ! i ! DAY_COL) \<le> 31"
    if "i < length (rows wd)" for i
  proof -
    have v: "valid_record (rows wd ! i)"
      using assms that by (rule valid_table_row)
    then show "1 \<le> sint (rows wd ! i ! MONTH_COL)" "sint (rows wd ! i ! MONTH_COL) \<le> 12"
      "1 \<le> sint (rows wd ! i ! DAY_COL)" "sint (rows wd ! i ! DAY_COL) \<le> 31"
      by (simp_all add: valid_record_def)
    then show "sint (?idx ! i)
               = 31 * (sint (rows wd ! i ! MONTH_COL) - 1) + (sint (rows wd ! i ! DAY_COL) - 1)"
      using that by (simp add: sint_day_of_year_index)
  qed
  have bounds: "\<forall>i < length ?idx. 0 \<le> sint (?idx ! i) \<and> sint (?idx ! i) \<le> 371"
  proof (intro allI impI)
    fix i assume "i < length ?idx"
    then have i: "i < length (rows wd)" by simp
    have "0 \<le> sint (?idx ! i)"
      using val [OF i] rng [OF i] by presburger
    moreover have "sint (?idx ! i) \<le> 371"
      using val [OF i] rng [OF i] by presburger
    ultimately show "0 \<le> sint (?idx ! i) \<and> sint (?idx ! i) \<le> 371" ..
  qed
  have mono: "\<forall>i < length ?idx. \<forall>j < length ?idx.
                 rows wd ! i ! MONTH_COL = rows wd ! j ! MONTH_COL
                 \<and> sint (rows wd ! i ! DAY_COL) \<le> sint (rows wd ! j ! DAY_COL)
                 \<longrightarrow> sint (?idx ! i) \<le> sint (?idx ! j)"
  proof (intro allI impI)
    fix i j
    assume "i < length ?idx" "j < length ?idx"
      and h: "rows wd ! i ! MONTH_COL = rows wd ! j ! MONTH_COL
                \<and> sint (rows wd ! i ! DAY_COL) \<le> sint (rows wd ! j ! DAY_COL)"
    then have i: "i < length (rows wd)" and j: "j < length (rows wd)" by simp_all
    from h have "sint (rows wd ! i ! MONTH_COL) = sint (rows wd ! j ! MONTH_COL)"
      and "sint (rows wd ! i ! DAY_COL) \<le> sint (rows wd ! j ! DAY_COL)"
      by simp_all
    then show "sint (?idx ! i) \<le> sint (?idx ! j)"
      unfolding val [OF i] val [OF j] by simp
  qed
  have "weather_data_day_of_year_data wd = Inr ?idx"
    using cols by (rule day_of_year_data_rows)
  moreover have "length ?idx = length (rows wd)" by simp
  ultimately show ?thesis
    using bounds mono by blast
qed

lemma valid_sample_table: "valid_table sample_table"
  by (simp add: sample_table_def valid_table_def valid_record_def MONTH_COL_def DAY_COL_def)

lemma sample_table_index: "weather_data_day_of_year_data sample_table = Inr [0, 361, 371]"
  by (simp add: sample_table_def weather_data_day_of_year_data_def column_def MONTH_COL_def DAY_COL_def day_of_year_index_def)

text \<open>The theorem at the sample table, whose records are valid.\<close>

theorem day_of_year_index_range_witness:
  "valid_table sample_table
   \<and> (\<exists>idx. weather_data_day_of_year_data sample_table = Inr idx
         \<and> length idx = 3
         \<and> 0 \<le> sint (idx ! 1) \<and> sint (idx ! 1) \<le> 371
         \<and> 0 \<le> sint (idx ! 2) \<and> sint (idx ! 2) \<le> 371
         \<and> sint (idx ! 1) \<le> sint (idx ! 2))"
proof -
  obtain idx where idx: "weather_data_day_of_year_data sample_table = Inr idx"
    and len: "length idx = length (rows sample_table)"
    and b: "\<forall>i < length idx. 0 \<le> sint (idx ! i) \<and> sint (idx ! i) \<le> 371"
    and m: "\<forall>i < length idx. \<forall>j < length idx.
                 rows sample_table ! i ! MONTH_COL = rows sample_table ! j ! MONTH_COL
                 \<and> sint (rows sample_table ! i ! DAY_COL) \<le> sint (rows sample_table ! j ! DAY_COL)
                 \<longrightarrow> sint (idx ! i) \<le> sint (idx ! j)"
    using day_of_year_index_range [OF valid_sample_table] by blast
  have l3: "length idx = 3"
    using len by (simp add: sample_table_def)
  have "sint (idx ! 1) \<le> sint (idx ! 2)"
    using m [rule_format, of 1 2] l3
    by (simp add: sample_table_def MONTH_COL_def DAY_COL_def)
  moreover have "0 \<le> sint (idx ! 1) \<and> sint (idx ! 1) \<le> 371"
    using b [rule_format, of 1] l3 by simp
  moreover have "0 \<le> sint (idx ! 2) \<and> sint (idx ! 2) \<le> 371"
    using b [rule_format, of 2] l3 by simp
  ultimately show ?thesis
    using valid_sample_table idx l3 by simp
qed

text \<open>
  Claim C1 as written asks for an index of at most 360.  The record of 31 December is
  valid and its index is 371.
\<close>

theorem day_of_year_index_exceeds_360:
  "valid_table \<lparr>ncols = 6, rows = [[0, 12, 31, 0, 0, 0]]\<rparr>
   \<and> weather_data_day_of_year_data \<lparr>ncols = 6, rows = [[0, 12, 31, 0, 0, 0]]\<rparr> = Inr [371]
   \<and> \<not> sint (371 :: int32) \<le> 360"
  by (simp add: valid_table_def valid_record_def weather_data_day_of_year_data_def column_def
        MONTH_COL_def DAY_COL_def day_of_year_index_def)

text \<open>
  Claim C9.  For every observation record of a valid table the derived index is, as an
  integer, exactly 31 * (month - 1) + (day - 1): every month counts 31 days, and the
  32-bit arithmetic of the loader does not wrap on such records.
\<close>

theorem day_of_year_index_formula:
  assumes "valid_table wd"
  shows "\<exists>idx. weather_data_day_of_year_data wd = Inr idx
           \<and> map sint idx
               = map (\<lambda>r. 31 * (sint (r ! MONTH_COL) - 1) + (sint (r ! DAY_COL) - 1)) (rows wd)"
proof -
  let ?idx = "map (\<lambda>r. day_of_year_index (r ! MONTH_COL) (r ! DAY_COL)) (rows wd)"
  have "2 < ncols wd"
    using assms by (simp add: valid_table_def)
  then have "weather_data_day_of_year_data wd = Inr ?idx"
    by (rule day_of_year_data_rows)
  moreover have "map sint ?idx
      = map (\<lambda>r. 31 * (sint (r ! MONTH_COL) - 1) + (sint (r ! DAY_COL) - 1)) (rows wd)"
  proof -
    have "sint (day_of_year_index (r ! MONTH_COL) (r ! DAY_COL))
            = 31 * (sint (r ! MONTH_COL) - 1) + (sint (r ! DAY_COL) - 1)"
      if "r \<in> set (rows wd)" for r
    proof -
      have "valid_record r"
        using assms that by (simp add: valid_table_def list_all_iff)
      then show ?thesis
        by (simp add: valid_record_def sint_day_of_year_index)
    qed
    then show ?thesis by simp
  qed
  ultimately show ?thesis by blast
qed

text \<open>The theorem at the sample table: 1 January, 21 December and 31 December.\<close>

theorem day_of_year_index_formula_witness:
  "valid_table sample_table
   \<and> (\<exists>idx. weather_data_day_of_year_data sample_table = Inr idx
         \<and> map sint idx = [0, 361, 371])"
  using day_of_year_index_formula [OF valid_sample_table] valid_sample_table
  by (simp add: sample_table_def MONTH_COL_def DAY_COL_def)

text \<open>
  Outside the valid range the index is the same expression wrapped to 32 bits.
\<close>

lemma day_of_year_index_wraps:
  "day_of_year_index m d = word_of_int (31 * (sint m - 1) + (sint d - 1))"
  by (simp add: day_of_year_index_def)

lemma day_of_year_index_overflow_example:
  "sint (day_of_year_index 69273668 1) = - 2147483619"
  by (simp add: day_of_year_index_def)

text \<open>
  The three arrays handed to the training call have one entry per record, and every
  target has the three observed values.
\<close>

lemma training_inputs_aligned:
  assumes "valid_table wd"
  shows "\<exists>ids days. station_id_data wd = Inr ids \<and> weather_data_day_of_year_data wd = Inr days
           \<and> length ids = length (rows wd) \<and> length days = length (rows wd)
           \<and> length (weather_prediction wd) = length (rows wd)
           \<and> list_all (\<lambda>y. length y = 3) (weather_prediction wd)"
proof -
  have c: "ncols wd = 6" and r: "list_all valid_record (rows wd)"
    using assms by (simp_all add: valid_table_def)
  have "station_id_data wd = Inr (map (\<lambda>r. r ! STATION_ID_COL) (rows wd))"
    using c by (simp add: station_id_data_def column_def STATION_ID_COL_def)
  moreover have "weather_data_day_of_year_data wd =
           Inr (map (\<lambda>r. day_of_year_index (r ! MONTH_COL) (r ! DAY_COL)) (rows wd))"
    using c by (intro day_of_year_data_rows) simp
  moreover have "list_all (\<lambda>y. length y = 3) (weather_prediction wd)"
    using r
    by (simp add: weather_prediction_def columns_from_def VAL_COLS_START_def list_all_iff
          valid_record_def)
  moreover have "length (weather_prediction wd) = length (rows wd)"
    by (simp add: weather_prediction_def columns_from_def)
  ultimately show ?thesis by simp
qed

section \<open>The network's structure\<close>

lemma build_model_Inr:
  assumes "0 < n"
  shows "build_model n =
     Inr \<lparr>layers =
            [\<lparr>lname = ''station_id_input'', inbound = [], output_shape = [1],
               weight_shapes = [], act = None\<rparr>,
             \<lparr>lname = ''embedded_stations'', inbound = [''station_id_input''],
               output_shape = [1, 20], weight_shapes = [[n, 20]], act = None\<rparr>,
             \<lparr>lname = ''embedded_station_reshape'', inbound = [''embedded_stations''],
               output_shape = [20], weight_shapes = [], act = None\<rparr>,
             \<lparr>lname = ''month_day_input'', inbound = [], output_shape = [1],
               weight_shapes = [], act = None\<rparr>,
             \<lparr>lname = ''station_and_day'',
               inbound = [''embedded_station_reshape'', ''month_day_input''],
               output_shape = [21], weight_shapes = [], act = None\<rparr>,
             \<lparr>lname = ''hidden'', inbound = [''station_and_day''],
               output_shape = [40], weight_shapes = [[21, 40], [40]], act = Some relu\<rparr>,
             \<lparr>lname = ''prediction'', inbound = [''hidden''],
               output_shape = [3], weight_shapes = [[40, 3], [3]], act = None\<rparr>],
          inputs = [''station_id_input'', ''month_day_input''],
          outputs = [''prediction''],
          compiled = Some \<lparr>optimizer = ''adam'', loss = ''mean_squared_error''\<rparr>\<rparr>"
  using assms
  by (simp add: build_model_def then_do_def Input_def Embedding_def Reshape_def
        Concatenate_def Dense_def EMBEDDING_SIZE_def HIDDEN_UNITS_def)

text \<open>Without a positive number of stations the network cell raises: no model is built.\<close>

lemma build_model_raises:
  assumes "n \<le> 0"
  shows "build_model n = Inl ValueError"
  using assms by (simp add: build_model_def then_do_def Embedding_def Let_def)

lemma trained_embeddings_shape_build:
  assumes "0 < n"
  shows "then_do (build_model n) trained_embeddings_shape = Inr [n, 20]"
  using assms
  by (simp add: build_model_Inr then_do_def trained_embeddings_shape_def get_layer_def)

lemma trained_embeddings_shape_raises:
  assumes "n \<le> 0"
  shows "then_do (build_model n) trained_embeddings_shape = Inl ValueError"
  using assms by (simp add: build_model_raises then_do_def)

lemma summary_matches_notebook_output:
  "then_do (build_model 1218) (\<lambda>m. Inr (summary m)) =
     Inr [(''station_id_input'', [1], 0, []),
          (''embedded_stations'', [1, 20], 24360, [''station_id_input'']),
          (''embedded_station_reshape'', [20], 0, [''embedded_stations'']),
          (''month_day_input'', [1], 0, []),
          (''station_and_day'', [21], 0, [''embedded_station_reshape'', ''month_day_input'']),
          (''hidden'', [40], 880, [''station_and_day'']),
          (''prediction'', [3], 123, [''hidden''])]"
  by (simp add: build_model_Inr then_do_def summary_def count_params_def)

lemma total_params_matches_notebook_output:
  "then_do (build_model 1218) (\<lambda>m. Inr (sum_list (map count_params (layers m)))) = Inr 25363"
  by (simp add: build_model_Inr then_do_def count_params_def)

text \<open>
  Claim C8.  For every positive station count the network is: an embedding table of shape
  (num_stations, 20) fed by the station input; its row, reshaped to 20 values, is
  concatenated with the one-value day-of-year input into 21 values; these feed a dense
  layer of 40 units with rectified-linear activation, which feeds a dense layer of 3
  units with no activation.  The snapshot taken from the layer \<open>embedded_stations\<close>
  has shape (num_stations, embedding_size).
\<close>

theorem network_structure:
  assumes "0 < num_stations"
  shows "\<exists>m. build_model num_stations = Inr m
     \<and> map (\<lambda>l. (lname l, inbound l, output_shape l, weight_shapes l, act l)) (layers m) =
         [(''station_id_input'', [], [1], [], None),
          (''embedded_stations'', [''station_id_input''], [1, 20], [[num_stations, 20]], None),
          (''embedded_station_reshape'', [''embedded_stations''], [20], [], None),
          (''month_day_input'', [], [1], [], None),
          (''station_and_day'', [''embedded_station_reshape'', ''month_day_input''], [21], [],
             None),
          (''hidden'', [''station_and_day''], [40], [[21, 40], [40]], Some relu),
          (''prediction'', [''hidden''], [3], [[40, 3], [3]], None)]
     \<and> inputs m = [''station_id_input'', ''month_day_input'']
     \<and> outputs m = [''prediction'']
     \<and> trained_embeddings_shape m = Inr [num_stations, EMBEDDING_SIZE]
     \<and> EMBEDDING_SIZE = 20"
  using assms
  by (simp add: build_model_Inr trained_embeddings_shape_def get_layer_def then_do_def
        EMBEDDING_SIZE_def)

text \<open>
  The theorem at the 1218 stations of the stored run: the embedding table has shape
  (1218, 20).
\<close>

theorem network_structure_witness:
  "(0 :: int) < 1218
   \<and> (\<exists>m. build_model 1218 = Inr m
     \<and> map (\<lambda>l. (lname l, inbound l, output_shape l, weight_shapes l, act l)) (layers m) =
         [(''station_id_input'', [], [1], [], None),
          (''embedded_stations'', [''station_id_input''], [1, 20], [[1218, 20]], None),
          (''embedded_station_reshape'', [''embedded_stations''], [20], [], None),
          (''month_day_input'', [], [1], [], None),
          (''station_and_day'', [''embedded_station_reshape'', ''month_day_input''], [21], [],
             None),
          (''hidden'', [''station_and_day''], [40], [[21, 40], [40]], Some relu),
          (''prediction'', [''hidden''], [3], [[40, 3], [3]], None)]
     \<and> inputs m = [''station_id_input'', ''month_day_input'']
     \<and> outputs m = [''prediction'']
     \<and> trained_embeddings_shape m = Inr [1218, EMBEDDING_SIZE]
     \<and> EMBEDDING_SIZE = 20)"
proof -
  have pos: "(0 :: int) < 1218"
    by simp
  show ?thesis
    by (rule conjI [OF pos network_structure [OF pos]])
qed

section \<open>The number of stations\<close>

lemma fold_max_ge_acc:
  "sint acc \<le> sint (fold (\<lambda>y acc. if sint acc < sint y then y else acc) ys (acc :: int32))"
proof (induction ys arbitrary: acc)
  case Nil
  show ?case by simp
next
  case (Cons y ys)
  show ?case
  proof (cases "sint acc < sint y")
    case True
    then show ?thesis
      using Cons [of y] by simp
  next
    case False
    then show ?thesis
      using Cons [of acc] by simp
  qed
qed

lemma fold_max_upper:
  "y \<in> set ys \<Longrightarrow>
     sint y \<le> sint (fold (\<lambda>y acc. if sint acc < sint y then y else acc) ys (acc :: int32))"
proof (induction ys arbitrary: acc)
  case Nil
  then show ?case by simp
next
  case (Cons z zs)
  let ?acc' = "if sint acc < sint z then z else acc"
  show ?case
  proof (cases "y = z")
    case True
    have "sint z \<le> sint ?acc'" by simp
    also have "\<dots> \<le> sint (fold (\<lambda>y acc. if sint acc < sint y then y else acc) zs ?acc')"
      by (rule fold_max_ge_acc)
    finally show ?thesis
      using True by simp
  next
    case False
    then have "y \<in> set zs"
      using Cons.prems by simp
    then show ?thesis
      using Cons.IH [of ?acc'] by simp
  qed
qed

lemma fold_max_member:
  "fold (\<lambda>y acc. if sint acc < sint y then y else acc) ys (acc :: int32) \<in> insert acc (set ys)"
proof (induction ys arbitrary: acc)
  case Nil
  show ?case by simp
next
  case (Cons z zs)
  show ?case
    using Cons [of "if sint acc < sint z then z else acc"] by auto
qed

lemma np_max_Cons:
  "np_max (x # xs) = Inr (fold (\<lambda>y acc. if sint acc < sint y then y else acc) xs x)"
  by (simp add: np_max_def)

lemma np_max_is_maximum:
  assumes "xs \<noteq> []"
  shows "\<exists>m. np_max xs = Inr m \<and> m \<in> set xs \<and> (\<forall>y \<in> set xs. sint y \<le> sint m)"
proof -
  obtain x rest where xs: "xs = x # rest"
    using assms by (cases xs) auto
  let ?m = "fold (\<lambda>y acc. if sint acc < sint y then y else acc) rest x"
  have "np_max xs = Inr ?m"
    unfolding xs by (rule np_max_Cons)
  moreover have "?m \<in> set xs"
    unfolding xs using fold_max_member [of rest x] by simp
  moreover have "\<forall>y \<in> set xs. sint y \<le> sint ?m"
    unfolding xs using fold_max_ge_acc [of x rest] fold_max_upper [of _ rest x] by auto
  ultimately show ?thesis by blast
qed

lemma sint_of_int64:
  assumes "- 9223372036854775808 \<le> k" "k < 9223372036854775808"
  shows "sint (word_of_int k :: int64) = k"
  using assms by (simp add: sint_sbintrunc' signed_take_bit_int_eq_self)

lemma sint_int32_bounds:
  fixes m :: int32
  shows "- 2147483648 \<le> sint m" "sint m < 2147483648"
  using sint_ge [of m] sint_lt [of m] by simp_all

lemma sint_scast_succ:
  fixes m :: int32
  shows "sint (scast m + 1 :: int64) = sint m + 1"
proof -
  have "(scast m + 1 :: int64) = word_of_int (sint m + 1)"
    by (simp add: signed_of_int [symmetric] )
  moreover have "sint (word_of_int (sint m + 1) :: int64) = sint m + 1"
    using sint_int32_bounds [of m] by (intro sint_of_int64) simp_all
  ultimately show ?thesis by simp
qed

lemma NUM_STATIONS_value:
  assumes "0 < ncols wd" "rows wd \<noteq> []"
  shows "\<exists>m. np_max (map (\<lambda>r. r ! STATION_ID_COL) (rows wd)) = Inr m
           \<and> NUM_STATIONS wd = Inr (scast m + 1)
           \<and> m \<in> (\<lambda>r. r ! STATION_ID_COL) ` set (rows wd)
           \<and> (\<forall>r \<in> set (rows wd). sint (r ! STATION_ID_COL) \<le> sint m)"
proof -
  let ?ids = "map (\<lambda>r. r ! STATION_ID_COL) (rows wd)"
  have "?ids \<noteq> []"
    using assms(2) by simp
  then obtain m where m: "np_max ?ids = Inr m" "m \<in> set ?ids" "\<forall>y \<in> set ?ids. sint y \<le> sint m"
    using np_max_is_maximum by blast
  have "column wd STATION_ID_COL = Inr ?ids"
    using assms(1) by (simp add: column_def STATION_ID_COL_def)
  then have "NUM_STATIONS wd = Inr (scast m + 1)"
    using m(1) by (simp add: NUM_STATIONS_def)
  moreover have "m \<in> (\<lambda>r. r ! STATION_ID_COL) ` set (rows wd)"
    using m(2) by simp
  moreover have "\<forall>r \<in> set (rows wd). sint (r ! STATION_ID_COL) \<le> sint m"
    using m(3) by simp
  ultimately show ?thesis
    using m(1) by blast
qed

text \<open>
  Claim C7.  For a table with at least one record, \<open>NUM_STATIONS\<close> is the maximum
  observed station ID plus one (the 64-bit sum does not wrap); every station ID of the
  records is strictly below it; when the maximum ID is not negative, the embedding table
  built for it has exactly that many rows; and every record whose station ID is not
  negative, the one with the maximum ID among them, finds its row in a table of that
  many rows.  (When every station ID is negative the count is not positive and the
  network cell raises: there is no table.)
\<close>

theorem num_stations_is_max_id_plus_one:
  assumes "0 < ncols wd" "rows wd \<noteq> []"
  shows "\<exists>n max_id.
           NUM_STATIONS wd = Inr n
           \<and> np_max (map (\<lambda>r. r ! STATION_ID_COL) (rows wd)) = Inr max_id
           \<and> max_id \<in> (\<lambda>r. r ! STATION_ID_COL) ` set (rows wd)
           \<and> sint n = sint max_id + 1
           \<and> (\<forall>r \<in> set (rows wd). sint (r ! STATION_ID_COL) < sint n)
           \<and> (0 \<le> sint max_id \<longrightarrow>
                 then_do (build_model (sint n)) trained_embeddings_shape
                   = Inr [sint max_id + 1, EMBEDDING_SIZE])
           \<and> (\<forall>table :: real list list. int (length table) = sint n \<longrightarrow>
                 (0 \<le> sint max_id \<longrightarrow>
                    embedding_lookup table (sint max_id) = Inr (table ! nat (sint max_id)))
                 \<and> (\<forall>r \<in> set (rows wd). 0 \<le> sint (r ! STATION_ID_COL) \<longrightarrow>
                      embedding_lookup table (sint (r ! STATION_ID_COL))
                        = Inr (table ! nat (sint (r ! STATION_ID_COL)))))"
proof -
  obtain m where m: "np_max (map (\<lambda>r. r ! STATION_ID_COL) (rows wd)) = Inr m"
    "NUM_STATIONS wd = Inr (scast m + 1)"
    "m \<in> (\<lambda>r. r ! STATION_ID_COL) ` set (rows wd)"
    "\<forall>r \<in> set (rows wd). sint (r ! STATION_ID_COL) \<le> sint m"
    using NUM_STATIONS_value [OF assms] by blast
  let ?n = "scast m + 1 :: int64"
  have n: "sint ?n = sint m + 1"
    by (rule sint_scast_succ)
  have below: "\<forall>r \<in> set (rows wd). sint (r ! STATION_ID_COL) < sint ?n"
    using m(4) n by fastforce
  have shape: "0 \<le> sint m \<longrightarrow>
                 then_do (build_model (sint ?n)) trained_embeddings_shape
                   = Inr [sint m + 1, EMBEDDING_SIZE]"
    by (simp add: trained_embeddings_shape_build n EMBEDDING_SIZE_def)
  have look: "embedding_lookup table i = Inr (table ! nat i)"
    if "int (length table) = sint ?n" "0 \<le> i" "i < sint ?n" for table :: "real list list" and i
    using that by (simp add: embedding_lookup_def)
  have "\<forall>table :: real list list. int (length table) = sint ?n \<longrightarrow>
                 (0 \<le> sint m \<longrightarrow>
                    embedding_lookup table (sint m) = Inr (table ! nat (sint m)))
                 \<and> (\<forall>r \<in> set (rows wd). 0 \<le> sint (r ! STATION_ID_COL) \<longrightarrow>
                      embedding_lookup table (sint (r ! STATION_ID_COL))
                        = Inr (table ! nat (sint (r ! STATION_ID_COL))))"
  proof (intro allI impI conjI ballI)
    fix table :: "real list list"
    assume t: "int (length table) = sint ?n" and "0 \<le> sint m"
    then show "embedding_lookup table (sint m) = Inr (table ! nat (sint m))"
      using n by (intro look) simp_all
  next
    fix table :: "real list list" and r
    assume t: "int (length table) = sint ?n" and "r \<in> set (rows wd)"
      "0 \<le> sint (r ! STATION_ID_COL)"
    then show "embedding_lookup table (sint (r ! STATION_ID_COL))
                 = Inr (table ! nat (sint (r ! STATION_ID_COL)))"
      using below by (intro look) simp_all
  qed
  then show ?thesis
    using m(1,2,3) n below shape by blast
qed

text \<open>
  The theorem at the sample table: the station IDs are 0, 3 and 3, so there are four
  stations, and the row of station 3 is the last of a table of four rows.
\<close>

theorem num_stations_is_max_id_plus_one_witness:
  "0 < ncols sample_table \<and> rows sample_table \<noteq> []
   \<and> NUM_STATIONS sample_table = Inr 4
   \<and> np_max (map (\<lambda>r. r ! STATION_ID_COL) (rows sample_table)) = Inr 3
   \<and> then_do (build_model 4) trained_embeddings_shape = Inr [4, EMBEDDING_SIZE]
   \<and> embedding_lookup [[0], [1], [2], [3 :: real]] 3 = Inr [3]"
proof -
  have h: "0 < ncols sample_table" "rows sample_table \<noteq> []"
    by (simp_all add: sample_table_def)
  have mx: "np_max (map (\<lambda>r. r ! STATION_ID_COL) (rows sample_table)) = Inr 3"
    by (simp add: sample_table_def STATION_ID_COL_def np_max_def)
  obtain n max_id where r: "NUM_STATIONS sample_table = Inr n"
    "np_max (map (\<lambda>r. r ! STATION_ID_COL) (rows sample_table)) = Inr max_id"
    "sint n = sint max_id + 1"
    "0 \<le> sint max_id \<longrightarrow>
       then_do (build_model (sint n)) trained_embeddings_shape
         = Inr [sint max_id + 1, EMBEDDING_SIZE]"
    "\<forall>table :: real list list. int (length table) = sint n \<longrightarrow>
                 (0 \<le> sint max_id \<longrightarrow>
                    embedding_lookup table (sint max_id) = Inr (table ! nat (sint max_id)))
                 \<and> (\<forall>r \<in> set (rows sample_table). 0 \<le> sint (r ! STATION_ID_COL) \<longrightarrow>
                      embedding_lookup table (sint (r ! STATION_ID_COL))
                        = Inr (table ! nat (sint (r ! STATION_ID_COL))))"
    using num_stations_is_max_id_plus_one [OF h] by blast
  have mid: "max_id = 3"
    using r(2) mx by simp
  have sn: "sint n = 4"
    using r(3) mid by simp
  then have "word_of_int (sint n) = (word_of_int 4 :: int64)"
    by simp
  then have n4: "n = 4"
    by simp
  have "embedding_lookup [[0], [1], [2], [3 :: real]] 3 = Inr [3]"
    using r(5) [rule_format, of "[[0], [1], [2], [3]]"] sn mid
    by (simp add: numeral_eq_Suc)
  then show ?thesis
    using h r(1) r(4) mx n4 sn mid by simp
qed

text \<open>
  Whenever \<open>NUM_STATIONS\<close> has a value at all, no record carries a station ID that
  reaches it: the count is inferred from the very IDs it bounds.  The notebook has no
  other check of the station IDs between loading and training.
\<close>

lemma station_id_below_NUM_STATIONS:
  assumes "NUM_STATIONS wd = Inr n" "r \<in> set (rows wd)"
  shows "sint (r ! STATION_ID_COL) < sint n"
proof -
  have c: "0 < ncols wd"
    using assms(1) by (auto simp: NUM_STATIONS_def column_def split: if_splits)
  have "rows wd \<noteq> []"
    using assms(2) by auto
  then obtain m :: int32 where m: "NUM_STATIONS wd = Inr (scast m + 1)"
    "\<forall>r \<in> set (rows wd). sint (r ! STATION_ID_COL) \<le> sint m"
    using NUM_STATIONS_value [OF c] by blast
  have "n = scast m + 1"
    using assms(1) m(1) by simp
  then have "sint n = sint m + 1"
    by (simp only: sint_scast_succ)
  then show ?thesis
    using m(2) assms(2) by fastforce
qed

lemma NUM_STATIONS_empty_table: "NUM_STATIONS \<lparr>ncols = 6, rows = []\<rparr> = Inl ValueError"
  by (simp add: NUM_STATIONS_def column_def np_max_def STATION_ID_COL_def)

text \<open>
  A table whose station IDs are all negative has a count that is not positive, and the
  network cell raises for it: no embedding table is built.
\<close>

lemma network_cell_raises_on_negative_ids:
  "NUM_STATIONS \<lparr>ncols = 6, rows = [[- 5, 1, 1, 0, 0, 0], [- 9, 1, 2, 0, 0, 0]]\<rparr> = Inr (- 4)
   \<and> sint (- 4 :: int64) = - 4
   \<and> then_do (build_model (sint (- 4 :: int64))) trained_embeddings_shape = Inl ValueError"
proof -
  have "NUM_STATIONS \<lparr>ncols = 6, rows = [[- 5, 1, 1, 0, 0, 0], [- 9, 1, 2, 0, 0, 0]]\<rparr>
          = Inr (- 4)"
    by (simp add: NUM_STATIONS_def column_def np_max_def STATION_ID_COL_def)
  moreover have s: "sint (- 4 :: int64) = - 4"
    by simp
  moreover have "then_do (build_model (sint (- 4 :: int64))) trained_embeddings_shape
                   = Inl ValueError"
    unfolding s by (rule trained_embeddings_shape_raises) simp
  ultimately show ?thesis by blast
qed

section \<open>Reporting\<close>

lemma report_loop_stdout: "stdout (report_loop ps s) = stdout s"
  by (induction ps s rule: report_loop.induct) simp_all

lemma report_loop_iterations: "iterations (report_loop ps s) = iterations s + length ps"
  by (induction ps s rule: report_loop.induct) simp_all

lemma zip_take_min:
  "zip (take (min (length xs) (length ys)) xs) (take (min (length xs) (length ys)) ys) = zip xs ys"
proof -
  have "zip (take (min (length xs) (length ys)) xs) (take (min (length xs) (length ys)) ys)
          = take (min (length xs) (length ys)) (zip xs ys)"
    by (simp add: take_zip)
  also have "\<dots> = zip xs ys"
    by simp
  finally show ?thesis .
qed

lemma length_list_of_stations: "length (list_of_stations file_lines) = length file_lines"
  by (simp add: list_of_stations_def)

text \<open>
  Claim C10.  The reporting loop runs exactly min (number of catalog lines, number of
  labels) times; the entries past that number, on either side, play no part in the
  result; the loop always ends in a state (there is no error to raise), and what the
  program has printed is unchanged: the body does nothing, only the loop variables
  are bound to the pair at hand.
\<close>

theorem report_enumerates_min_pairs:
  "iterations (report (list_of_stations file_lines) labels s)
     = iterations s + min (length file_lines) (length labels)
   \<and> length (zip (list_of_stations file_lines) labels) = min (length file_lines) (length labels)
   \<and> report (list_of_stations file_lines) labels s
     = report (take (min (length file_lines) (length labels)) (list_of_stations file_lines))
         (take (min (length file_lines) (length labels)) labels) s
   \<and> stdout (report (list_of_stations file_lines) labels s) = stdout s"
proof -
  let ?st = "list_of_stations file_lines"
  let ?n = "min (length file_lines) (length labels)"
  have n: "?n = min (length ?st) (length labels)"
    by (simp add: length_list_of_stations)
  have "zip (take ?n ?st) (take ?n labels) = zip ?st labels"
    unfolding n by (rule zip_take_min)
  then have "report ?st labels s = report (take ?n ?st) (take ?n labels) s"
    by (simp add: report_def)
  moreover have "iterations (report ?st labels s) = iterations s + ?n"
    by (simp add: report_def report_loop_iterations length_list_of_stations)
  moreover have "length (zip ?st labels) = ?n"
    by (simp add: length_list_of_stations)
  moreover have "stdout (report ?st labels s) = stdout s"
    by (simp add: report_def report_loop_stdout)
  ultimately show ?thesis by blast
qed

lemma report_example:
  "report (list_of_stations [''USW00094728  '', '' CA002100636'', ''ASN00009021'']) [4, 1]
     \<lparr>stdout = [], station = None, label = None, iterations = 0\<rparr>
   = \<lparr>stdout = [], station = Some ''CA002100636'', label = Some 1, iterations = 2\<rparr>"
  by (simp add: report_def list_of_stations_def strip_def is_space_def)

section \<open>Running the notebook as written\<close>

lemmas cell_defs =
  cell_imports_def cell_load_def cell_reshape_def cell_parameters_def cell_network_def
  cell_fit_def cell_embeddings_def cell_classify_def

text \<open>
  In any kernel where \<open>os\<close> is not bound, the data-loading cell binds \<open>DATA_PATH\<close> and
  then raises, before it reads the matrix file.
\<close>

lemma load_raises:
  "''os'' \<notin> set (bound k) \<Longrightarrow>
     exec_cell files cell_load k = (k\<lparr>bound := ''DATA_PATH'' # bound k\<rparr>, Some (NameError ''os''))"
  by (simp add: cell_load_def)

text \<open>
  Claim C3.  Whatever files exist, running the notebook from a fresh kernel stops in
  the data-loading cell with \<open>NameError\<close> for \<open>os\<close>: at that point only the five imports
  have taken effect and no file has been read.  Stepping through the remaining cells
  all the same, each of them raises \<open>NameError\<close> as well, and the effects stay the five
  imports: no file is read, nothing is compiled or trained, nothing is clustered and
  nothing is enumerated.
\<close>

theorem notebook_raises_NameError_os:
  "run_all files notebook fresh_kernel =
     (\<lparr>bound = [''DATA_PATH'', ''KMeans'', ''Concatenate'', ''Reshape'', ''Input'',
                ''Embedding'', ''Flatten'', ''Dense'', ''Model'', ''plt'', ''np'', ''open'',
                ''zip''],
       trace = [Import ''numpy'', Import ''matplotlib.pyplot'', Import ''keras.models'',
                Import ''keras.layers'', Import ''sklearn.cluster'']\<rparr>,
      Some (NameError ''os''))
   \<and> snd (run_each files notebook fresh_kernel) =
       [None, Some (NameError ''os''), Some (NameError ''weather_data''),
        Some (NameError ''weather_data''), Some (NameError ''NUM_STATIONS''),
        Some (NameError ''model''), Some (NameError ''model''), Some (NameError ''os'')]
   \<and> trace (fst (run_each files notebook fresh_kernel)) =
       [Import ''numpy'', Import ''matplotlib.pyplot'', Import ''keras.models'',
        Import ''keras.layers'', Import ''sklearn.cluster'']"
  by (simp add: notebook_def cell_defs fresh_kernel_def)

text \<open>
  For comparison: in a kernel where \<open>os\<close> is bound, as in the session that produced
  the outputs stored in the notebook, the same cells run to the end when both files
  exist, and stop at the first read when they do not.
\<close>

lemma notebook_runs_when_os_is_bound:
  "snd (run_all (\<lambda>p. p \<in> {matrix_file, stations_file}) notebook
          (fresh_kernel\<lparr>bound := ''os'' # bound fresh_kernel\<rparr>)) = None
   \<and> trace (fst (run_all (\<lambda>p. p \<in> {matrix_file, stations_file}) notebook
          (fresh_kernel\<lparr>bound := ''os'' # bound fresh_kernel\<rparr>)))
       = [Import ''numpy'', Import ''matplotlib.pyplot'', Import ''keras.models'',
          Import ''keras.layers'', Import ''sklearn.cluster'', ReadFile matrix_file, Compile,
          Summary, Train, ReadFile stations_file, Cluster, Enumerate]"
  by code_simp

lemma matrix_file_path: "matrix_file = ''data/weather/data/gsn-2000-TMAX-TMIN-PRCP.npz''"
  by (simp add: matrix_file_def path_join_def DATA_PATH_def)

lemma notebook_stops_on_missing_file:
  "snd (run_all (\<lambda>p. False) notebook (fresh_kernel\<lparr>bound := ''os'' # bound fresh_kernel\<rparr>))
     = Some (FileNotFoundError matrix_file)"
  by code_simp

section \<open>Training\<close>

lemma upt_split: "a \<le> b \<Longrightarrow> [0..<a] @ [a..<b] = [0..<(b :: nat)]"
  using upt_add_eq_append [of 0 a "b - a"] by simp

lemma batches_prefix:
  "concat (map (\<lambda>i. [i * bs..<min n ((i + 1) * bs)]) [0..<j]) = [0..<min n (j * bs)]"
proof (induction j)
  case 0
  show ?case by simp
next
  case (Suc j)
  show ?case
  proof (cases "j * bs \<le> n")
    case True
    then have "min n (j * bs) = j * bs" "j * bs \<le> min n (Suc j * bs)"
      by simp_all
    then have "[0..<min n (j * bs)] @ [j * bs..<min n (Suc j * bs)] = [0..<min n (Suc j * bs)]"
      by (simp only: upt_split)
    then show ?thesis
      using Suc by simp
  next
    case False
    then have "min n (j * bs) = n" "min n (Suc j * bs) = n"
      by simp_all
    then show ?thesis
      using Suc False by simp
  qed
qed

lemma ceil_div_covers:
  assumes "0 < bs"
  shows "n \<le> ((n + bs - 1) div bs) * (bs :: nat)"
proof -
  have "n + bs - 1 = (n + bs - 1) div bs * bs + (n + bs - 1) mod bs"
    by simp
  moreover have "(n + bs - 1) mod bs < bs"
    using assms by simp
  ultimately show ?thesis
    by linarith
qed

lemma make_batches_cover:
  assumes "0 < bs"
  shows "concat (map (\<lambda>(a, b). [a..<b]) (make_batches n bs)) = [0..<n]"
proof -
  have "concat (map (\<lambda>(a, b). [a..<b]) (make_batches n bs))
          = concat (map (\<lambda>i. [i * bs..<min n ((i + 1) * bs)]) [0..<(n + bs - 1) div bs])"
    by (simp add: make_batches_def comp_def)
  also have "\<dots> = [0..<min n ((n + bs - 1) div bs * bs)]"
    by (rule batches_prefix)
  also have "\<dots> = [0..<n]"
    using ceil_div_covers [OF assms, of n] by (simp add: min_def)
  finally show ?thesis .
qed

lemma make_batches_size:
  "(a, b) \<in> set (make_batches n bs) \<Longrightarrow> b - a \<le> bs"
  by (auto simp: make_batches_def min_def)

text \<open>
  What holds of the training call for every table: one epoch, and in it slices of at
  most the batch size that cover all the samples in order.
\<close>

lemma fit_plan_one_pass:
  assumes "0 < default_batch_size"
  shows "fit_plan default_batch_size (model_fit_call n) = [make_batches n default_batch_size]
         \<and> concat (map (\<lambda>(a, b). [a..<b]) (make_batches n default_batch_size)) = [0..<n]"
  using assms
  by (simp add: make_batches_cover fit_plan_def model_fit_call_def effective_batch_size_def)

lemma loss_and_optimizer:
  assumes "0 < n"
  shows "then_do (build_model n) (\<lambda>m. Inr (compiled m))
     = Inr (Some \<lparr>optimizer = ''adam'', loss = ''mean_squared_error''\<rparr>)"
  using assms by (simp add: build_model_Inr then_do_def)

text \<open>
  Claim C2 asks for mini-batches of \<open>BATCH_SIZE\<close> = 50 samples.  The call to \<open>fit\<close> does
  not pass \<open>BATCH_SIZE\<close>, so the batch size is the library's default, whatever it is,
  and the declared constant has no influence.  With the documented default of 32, a
  table of 50 records is trained on in two slices, of 32 and of 18 records, where a
  batch size of 50 would give a single slice.
\<close>

theorem fit_does_not_use_BATCH_SIZE:
  "BATCH_SIZE = 50
   \<and> batch_size (model_fit_call 50) = None
   \<and> effective_batch_size default_batch_size (model_fit_call 50) = default_batch_size
   \<and> effective_batch_size keras_default_batch_size (model_fit_call 50) = 32
   \<and> fit_plan keras_default_batch_size (model_fit_call 50) = [[(0, 32), (32, 50)]]
   \<and> fit_plan keras_default_batch_size ((model_fit_call 50)\<lparr>batch_size := Some BATCH_SIZE\<rparr>)
       = [[(0, 50)]]"
  by (simp add: BATCH_SIZE_def model_fit_call_def effective_batch_size_def
        keras_default_batch_size_def fit_plan_def make_batches_def upt_rec min_def)

section \<open>Clustering\<close>

lemma nearest_scan_bound:
  "best < i \<Longrightarrow> nearest_scan cs p i best d < i + length cs"
proof (induction cs arbitrary: i best d)
  case Nil
  then show ?case by simp
next
  case (Cons c cs)
  have "nearest_scan cs p (Suc i) i (sq_dist p c) < Suc i + length cs"
    by (rule Cons.IH) simp
  moreover have "nearest_scan cs p (Suc i) best d < Suc i + length cs"
    using Cons.prems by (intro Cons.IH) simp
  ultimately show ?case by simp
qed

lemma nearest_bound:
  assumes "centroids \<noteq> []"
  shows "nearest centroids p < length centroids"
proof -
  obtain c cs where cs: "centroids = c # cs"
    using assms by (cases centroids) auto
  have "nearest_scan cs p 1 0 (sq_dist p c) < 1 + length cs"
    by (rule nearest_scan_bound) simp
  then show ?thesis
    by (simp add: cs nearest_def)
qed

lemma assign_labels:
  assumes "centroids \<noteq> []"
  shows "length (assign centroids X) = length X"
    and "l \<in> set (assign centroids X) \<Longrightarrow> l < length centroids"
  using assms by (auto simp: assign_def nearest_bound)

lemma length_update_centroids:
  "length (update_centroids centroids labels X) = length centroids"
  by (simp add: update_centroids_def)

lemma lloyd_labels:
  assumes "centroids \<noteq> []"
  shows "length (lloyd n centroids X) = length X
         \<and> (\<forall>l \<in> set (lloyd n centroids X). l < length centroids)"
  using assms
proof (induction n arbitrary: centroids)
  case 0
  then show ?case
    using assign_labels [of centroids] by simp
next
  case (Suc n)
  let ?cs' = "update_centroids centroids (assign centroids X) X"
  have len: "length ?cs' = length centroids"
    by (rule length_update_centroids)
  then have "?cs' \<noteq> []"
    using Suc.prems by auto
  then have "length (lloyd n ?cs' X) = length X
         \<and> (\<forall>l \<in> set (lloyd n ?cs' X). l < length ?cs')"
    by (rule Suc.IH)
  then show ?case
    using assign_labels [OF Suc.prems] len by (simp add: Let_def)
qed

lemma length_init_centroids: "length (init_centroids rng k X) = k"
  by (simp add: init_centroids_def)

text \<open>
  Claim C6.  For a positive number of clusters, and so for the notebook's six, the
  clustering stage returns one label for every row of the embedding table, every label
  is a number below the number of clusters, and the labels take at most that many
  distinct values.
\<close>

theorem kmeans_labels_in_range:
  assumes "0 < n_clusters"
  shows "length (KMeans_fit_labels rng n_clusters max_iter X) = length X
         \<and> (\<forall>i < length X. KMeans_fit_labels rng n_clusters max_iter X ! i < n_clusters)
         \<and> card (set (KMeans_fit_labels rng n_clusters max_iter X)) \<le> n_clusters"
proof (cases "X = []")
  case True
  then show ?thesis
    by (simp add: KMeans_fit_labels_def)
next
  case False
  let ?cs = "init_centroids rng n_clusters X"
  let ?labels = "KMeans_fit_labels rng n_clusters max_iter X"
  have eq: "?labels = lloyd max_iter ?cs X"
    using False by (simp add: KMeans_fit_labels_def)
  have "?cs \<noteq> []"
    using assms length_init_centroids [of rng n_clusters X] by auto
  then have l: "length ?labels = length X" "\<forall>l \<in> set ?labels. l < n_clusters"
    using lloyd_labels [of ?cs max_iter X] eq by (simp_all add: length_init_centroids)
  have "set ?labels \<subseteq> {..<n_clusters}"
    using l(2) by auto
  then have "card (set ?labels) \<le> card {..<n_clusters}"
    by (intro card_mono) simp_all
  then have "card (set ?labels) \<le> n_clusters"
    by simp
  moreover have "\<forall>i < length X. ?labels ! i < n_clusters"
    using l by (metis nth_mem)
  ultimately show ?thesis
    using l(1) by blast
qed

lemma kmeans_example:
  "KMeans_fit_labels (\<lambda>i. i) 2 300 [[0, 0], [1, 0], [10, 10], [11, 10]] = [0, 0, 1, 1]"
  by code_simp

text \<open>
  The theorem at the notebook's six clusters and a sample table of nine rows, with its
  labels computed.
\<close>

theorem kmeans_labels_in_range_witness:
  "0 < CLUSTER_NUMBER
   \<and> KMeans_fit_labels (\<lambda>i. i) CLUSTER_NUMBER 300 sample_embeddings = [0, 1, 2, 2, 4, 5, 3, 3, 3]
   \<and> length (KMeans_fit_labels (\<lambda>i. i) CLUSTER_NUMBER 300 sample_embeddings)
       = length sample_embeddings
   \<and> list_all (\<lambda>l. l < CLUSTER_NUMBER)
        (KMeans_fit_labels (\<lambda>i. i) CLUSTER_NUMBER 300 sample_embeddings)
   \<and> card (set (KMeans_fit_labels (\<lambda>i. i) CLUSTER_NUMBER 300 sample_embeddings))
       \<le> CLUSTER_NUMBER"
proof -
  have pos: "0 < CLUSTER_NUMBER"
    by (simp add: CLUSTER_NUMBER_def)
  have ev: "KMeans_fit_labels (\<lambda>i. i) CLUSTER_NUMBER 300 sample_embeddings
              = [0, 1, 2, 2, 4, 5, 3, 3, 3]"
    by code_simp
  note r = kmeans_labels_in_range [OF pos, of "\<lambda>i. i" 300 sample_embeddings]
  have "list_all (\<lambda>l. l < CLUSTER_NUMBER)
          (KMeans_fit_labels (\<lambda>i. i) CLUSTER_NUMBER 300 sample_embeddings)"
    using r by (simp add: list_all_length)
  then show ?thesis
    using pos ev r by blast
qed

end
